theory Spec2Isabelle
  imports Complex_Main
begin

section \<open>Python values, exceptions and the detector object\<close>

text \<open>
  The class \<open>AlertDetector\<close> of \<open>alert_detector.py\<close> is embedded by explicit state
  passing: a method takes the object and returns either the exception it raises
  (\<open>Inl\<close>) or its return value together with the updated object (\<open>Inr\<close>). An
  exception ends the call; what the object holds after it is not modelled.

  Numbers are idealised: a Python \<open>int\<close> is an \<open>int\<close>, a Python \<open>float\<close> is a \<open>real\<close>
  (finite, exact arithmetic, no NaN). The one non-finite float of the source, the
  \<open>float("inf")\<close> that \<open>set_lower_limit\<close> installs for a missing \<open>upper_limit\<close>, is the
  constructor \<open>PosInf\<close> of \<open>bound\<close>.
\<close>

datatype py_error = AttributeError | TypeError | ValueError | IndexError | KeyError

text \<open>An argument passed to a setter: an int (bool included, as in Python), a float, or
  an object of any other type (a string, \<open>None\<close>, ...).\<close>

datatype pyval = PyInt int | PyFloat real | PyOther

fun isinstance_int :: "pyval \<Rightarrow> bool" where
  "isinstance_int (PyInt i) = True"
| "isinstance_int (PyFloat r) = False"
| "isinstance_int PyOther = False"

fun isinstance_float :: "pyval \<Rightarrow> bool" where
  "isinstance_float (PyInt i) = False"
| "isinstance_float (PyFloat r) = True"
| "isinstance_float PyOther = False"

text \<open>The numeric value of an int or float argument; only read after the
  \<open>isinstance\<close> checks have passed.\<close>

fun num_of :: "pyval \<Rightarrow> real" where
  "num_of (PyInt i) = real_of_int i"
| "num_of (PyFloat r) = r"
| "num_of PyOther = 0"

fun int_of :: "pyval \<Rightarrow> int" where
  "int_of (PyInt i) = i"
| "int_of (PyFloat r) = 0"
| "int_of PyOther = 0"

datatype bound = Num real | PosInf

text \<open>\<open>u <= x\<close> and \<open>x > u\<close> for an upper limit \<open>u\<close> that may be \<open>float("inf")\<close>.\<close>

fun bound_le :: "bound \<Rightarrow> real \<Rightarrow> bool" where
  "bound_le (Num u) x = (u \<le> x)"
| "bound_le PosInf x = False"

fun gt_bound :: "real \<Rightarrow> bound \<Rightarrow> bool" where
  "gt_bound x (Num u) = (x > u)"
| "gt_bound x PosInf = False"

text \<open>\<open>(u - u) <= d\<close>: zero for a number; \<open>inf - inf\<close> is NaN, and every comparison
  with NaN is false.\<close>

fun self_diff_le :: "bound \<Rightarrow> real \<Rightarrow> bool" where
  "self_diff_le (Num u) d = (u - u \<le> d)"
| "self_diff_le PosInf d = False"

text \<open>The pandas DataFrame held in \<open>self.data\<close>: the column \<open>'values'\<close> and the columns
  the detector adds (\<open>None\<close> while a column does not exist).\<close>

record frame =
  values_col :: "real list"
  maxmin_alert :: "int list option"
  slow_ma :: "real list option"
  fast_ma :: "real list option"
  delta_ma :: "real list option"
  delta_ma_alert :: "int list option"
  plateau_alert :: "int list option"
  alert :: "bool list option"

text \<open>\<open>pandas.DataFrame({'values': xs})\<close>: the frame a caller builds from a list of
  readings.\<close>

definition DataFrame_values :: "real list \<Rightarrow> frame" where
  "DataFrame_values xs = \<lparr>values_col = xs, maxmin_alert = None, slow_ma = None,
     fast_ma = None, delta_ma = None, delta_ma_alert = None, plateau_alert = None,
     alert = None\<rparr>"

text \<open>The argument of \<open>set_data\<close>: not a DataFrame, a DataFrame without a
  \<open>'values'\<close> column, or a DataFrame with one.\<close>

datatype data_arg = NotDataFrame | FrameNoValues | Frame frame

text \<open>The instance: \<open>None\<close> for an attribute that has not been assigned yet
  (\<open>hasattr\<close> is false); \<open>data\<close> is the class attribute \<open>data = None\<close> until
  \<open>set_data\<close> succeeds.\<close>

record detector =
  data :: "frame option"
  lower_limit :: "real option"
  upper_limit :: "bound option"
  slow_mavg_window :: "int option"
  fast_mavg_window :: "int option"
  mavg_delta :: "real option"
  plateau_length :: "int option"
  plateau_delta :: "real option"

definition new_object :: detector where
  "new_object = \<lparr>data = None, lower_limit = None, upper_limit = None,
     slow_mavg_window = None, fast_mavg_window = None, mavg_delta = None,
     plateau_length = None, plateau_delta = None\<rparr>"

section \<open>Configuration setters\<close>

definition set_data :: "data_arg \<Rightarrow> detector \<Rightarrow> py_error + bool \<times> detector" where
  "set_data d s =
     (case d of
        NotDataFrame \<Rightarrow> Inr (False, s)
      | FrameNoValues \<Rightarrow> Inr (False, s)
      | Frame f \<Rightarrow>
          if length (values_col f) \<le> 20 then Inr (False, s)
          else Inr (True, s\<lparr>data := Some f\<rparr>))"

definition set_lower_limit :: "pyval \<Rightarrow> detector \<Rightarrow> py_error + bool \<times> detector" where
  "set_lower_limit v s =
     (if \<not> isinstance_float v \<and> \<not> isinstance_int v then Inr (False, s)
      else
        let u = (case upper_limit s of None \<Rightarrow> PosInf | Some u \<Rightarrow> u);
            s1 = s\<lparr>upper_limit := Some u\<rparr>
        in if bound_le u (num_of v) then Inr (False, s1)
           else Inr (True, s1\<lparr>lower_limit := Some (num_of v)\<rparr>))"

definition set_upper_limit :: "pyval \<Rightarrow> detector \<Rightarrow> py_error + bool \<times> detector" where
  "set_upper_limit v s =
     (if \<not> isinstance_float v \<and> \<not> isinstance_int v then Inr (False, s)
      else
        (case lower_limit s of
           None \<Rightarrow> Inl AttributeError
         | Some lo \<Rightarrow>
             if lo \<ge> num_of v then Inr (False, s)
             else Inr (True, s\<lparr>upper_limit := Some (Num (num_of v))\<rparr>)))"

definition set_slow_mavg_window :: "pyval \<Rightarrow> detector \<Rightarrow> py_error + bool \<times> detector" where
  "set_slow_mavg_window v s =
     (if \<not> isinstance_int v then Inr (False, s)
      else
        let fw = (case fast_mavg_window s of None \<Rightarrow> 5 | Some fw \<Rightarrow> fw);
            s1 = s\<lparr>fast_mavg_window := Some fw\<rparr>
        in if fw \<ge> int_of v then Inr (False, s1)
           else if int_of v < 20 then Inr (False, s1)
           else Inr (True, s1\<lparr>slow_mavg_window := Some (int_of v)\<rparr>))"

definition set_fast_mavg_window :: "pyval \<Rightarrow> detector \<Rightarrow> py_error + bool \<times> detector" where
  "set_fast_mavg_window v s =
     (if \<not> isinstance_int v then Inr (False, s)
      else
        (case slow_mavg_window s of
           None \<Rightarrow> Inl AttributeError
         | Some sw \<Rightarrow>
             if sw \<le> int_of v then Inr (False, s)
             else if int_of v < 5 then Inr (False, s)
             else Inr (True, s\<lparr>fast_mavg_window := Some (int_of v)\<rparr>)))"

text \<open>\<open>locals()\<close> inside \<open>set_mavg_delta\<close>: the names of its two parameters. The
  guard of the range check looks the strings \<open>'self.upper_limit'\<close> and
  \<open>'self.lower_limit'\<close> up in it.\<close>

definition set_mavg_delta_locals :: "string list" where
  "set_mavg_delta_locals = [''self'', ''mavg_delta'']"

definition set_mavg_delta :: "pyval \<Rightarrow> detector \<Rightarrow> py_error + bool \<times> detector" where
  "set_mavg_delta v s =
     (if \<not> isinstance_float v \<and> \<not> isinstance_int v then Inr (False, s)
      else if ''self.upper_limit'' \<in> set set_mavg_delta_locals
              \<and> ''self.lower_limit'' \<in> set set_mavg_delta_locals
      then
        (case upper_limit s of
           None \<Rightarrow> Inl AttributeError
         | Some u \<Rightarrow>
             if self_diff_le u (num_of v) then Inr (False, s)
             else Inr (True, s\<lparr>mavg_delta := Some (num_of v)\<rparr>))
      else Inr (True, s\<lparr>mavg_delta := Some (num_of v)\<rparr>))"

definition set_plateau_length :: "pyval \<Rightarrow> detector \<Rightarrow> py_error + bool \<times> detector" where
  "set_plateau_length v s =
     (if \<not> isinstance_int v then Inr (False, s)
      else if int_of v < 10 then Inr (False, s)
      else Inr (True, s\<lparr>plateau_length := Some (int_of v)\<rparr>))"

definition set_plateau_delta :: "pyval \<Rightarrow> detector \<Rightarrow> py_error + bool \<times> detector" where
  "set_plateau_delta v s =
     (if \<not> isinstance_float v \<and> \<not> isinstance_int v then Inr (False, s)
      else if num_of v < 0 then Inr (False, s)
      else Inr (True, s\<lparr>plateau_delta := Some (num_of v)\<rparr>))"

text \<open>Sequencing of method calls whose return value is discarded: an exception
  propagates, otherwise the next call runs on the updated object.\<close>

definition and_then ::
  "py_error + bool \<times> detector \<Rightarrow> (detector \<Rightarrow> py_error + bool \<times> detector)
     \<Rightarrow> py_error + bool \<times> detector" where
  "and_then r g = (case r of Inl e \<Rightarrow> Inl e | Inr (ok, s) \<Rightarrow> g s)"

text \<open>The class constants and \<open>__init__\<close>, which calls every setter with its default
  and returns nothing.\<close>

definition LOWER_LIMIT :: pyval where "LOWER_LIMIT = PyInt 100"
definition UPPER_LIMIT :: pyval where "UPPER_LIMIT = PyInt 1300"
definition SLOW_MAVG_WINDOW :: pyval where "SLOW_MAVG_WINDOW = PyInt 20"
definition FAST_MAVG_WINDOW :: pyval where "FAST_MAVG_WINDOW = PyInt 5"
definition MAVG_DELTA :: pyval where "MAVG_DELTA = PyInt 70"
definition PLATEAU_LENGTH :: pyval where "PLATEAU_LENGTH = PyInt 2000"
definition PLATEAU_DELTA :: pyval where "PLATEAU_DELTA = PyInt 2"

definition init :: "detector \<Rightarrow> py_error + detector" where
  "init s =
     (case and_then (and_then (and_then (and_then (and_then (and_then
             (set_lower_limit LOWER_LIMIT s)
             (set_upper_limit UPPER_LIMIT))
             (set_slow_mavg_window SLOW_MAVG_WINDOW))
             (set_fast_mavg_window FAST_MAVG_WINDOW))
             (set_mavg_delta MAVG_DELTA))
             (set_plateau_length PLATEAU_LENGTH))
             (set_plateau_delta PLATEAU_DELTA) of
        Inl e \<Rightarrow> Inl e
      | Inr (ok, s') \<Rightarrow> Inr s')"

text \<open>The object a caller holds after \<open>AlertDetector()\<close>.\<close>

definition default_detector :: detector where
  "default_detector = \<lparr>data = None, lower_limit = Some 100, upper_limit = Some (Num 1300),
     slow_mavg_window = Some 20, fast_mavg_window = Some 5, mavg_delta = Some 70,
     plateau_length = Some 2000, plateau_delta = Some 2\<rparr>"

section \<open>Moving-average engine\<close>

text \<open>\<open>numpy.convolve(a, v, 'valid')\<close>: the operands are swapped when \<open>v\<close> is the
  longer one, an empty operand raises \<open>ValueError\<close>, and the result is the correlation
  of \<open>a\<close> with the reversed \<open>v\<close> at every position of full overlap.\<close>

definition convolve_valid :: "real list \<Rightarrow> real list \<Rightarrow> py_error + real list" where
  "convolve_valid a0 v0 =
     (let a = (if length v0 > length a0 then v0 else a0);
          v = (if length v0 > length a0 then a0 else v0)
      in if length a = 0 then Inl ValueError
         else if length v = 0 then Inl ValueError
         else Inr (map (\<lambda>n. sum_list (map (\<lambda>m. a ! (n + m) * rev v ! m) [0..<length v]))
                    [0..<length a - length v + 1]))"

text \<open>\<open>numpy.ones(w)\<close>: a negative length raises \<open>ValueError\<close>.\<close>

definition np_ones :: "int \<Rightarrow> py_error + real list" where
  "np_ones w = (if w < 0 then Inl ValueError else Inr (replicate (nat w) 1))"

text \<open>\<open>__moving_average__(w)\<close>: \<open>pad\<close> is the last raw value of the series repeated
  \<open>w - 1\<close> times (a list times a non-positive int is empty); \<open>mavg\<close> is the valid
  convolution with \<open>w\<close> ones divided by \<open>w\<close>; the result is \<open>mavg\<close> followed by \<open>pad\<close>.\<close>

definition moving_average :: "detector \<Rightarrow> int \<Rightarrow> py_error + real list" where
  "moving_average s w =
     (case data s of
        None \<Rightarrow> Inl TypeError
      | Some f \<Rightarrow>
          if values_col f = [] then Inl IndexError
          else
            let pad = replicate (nat (w - 1)) (last (values_col f)) in
            (case np_ones w of
               Inl e \<Rightarrow> Inl e
             | Inr ones \<Rightarrow>
                 (case convolve_valid (values_col f) ones of
                    Inl e \<Rightarrow> Inl e
                  | Inr c \<Rightarrow> Inr (map (\<lambda>x. x / real_of_int w) c @ pad))))"

text \<open>\<open>__mavg_calc__\<close>: assigning a column whose length differs from the frame's
  raises \<open>ValueError\<close> (pandas checks the length against the index).\<close>

definition mavg_calc :: "detector \<Rightarrow> py_error + detector" where
  "mavg_calc s =
     (case data s of
        None \<Rightarrow> Inl TypeError
      | Some f \<Rightarrow>
          (case slow_mavg_window s of
             None \<Rightarrow> Inl AttributeError
           | Some sw \<Rightarrow>
               (case moving_average s sw of
                  Inl e \<Rightarrow> Inl e
                | Inr sma \<Rightarrow>
                    if length sma \<noteq> length (values_col f) then Inl ValueError
                    else
                      (case fast_mavg_window s of
                         None \<Rightarrow> Inl AttributeError
                       | Some fw \<Rightarrow>
                           (case moving_average s fw of
                              Inl e \<Rightarrow> Inl e
                            | Inr fma \<Rightarrow>
                                if length fma \<noteq> length (values_col f) then Inl ValueError
                                else Inr (s\<lparr>data := Some (f\<lparr>slow_ma := Some sma,
                                       fast_ma := Some fma,
                                       delta_ma := Some (map2 (-) sma fma)\<rparr>)\<rparr>))))))"

section \<open>Detection rules\<close>

text \<open>\<open>DataFrame.apply(g, axis=1)\<close>: \<open>g\<close> on every row in index order; the first
  exception propagates.\<close>

fun apply_rows :: "('a \<Rightarrow> py_error + 'b) \<Rightarrow> 'a list \<Rightarrow> py_error + 'b list" where
  "apply_rows g [] = Inr []"
| "apply_rows g (x # xs) =
     (case g x of
        Inl e \<Rightarrow> Inl e
      | Inr y \<Rightarrow> (case apply_rows g xs of Inl e \<Rightarrow> Inl e | Inr ys \<Rightarrow> Inr (y # ys)))"

text \<open>\<open>__maxmin_calc__\<close> on the \<open>'values'\<close> entry of a row; \<open>or\<close> short-circuits.\<close>

definition maxmin_calc :: "detector \<Rightarrow> real \<Rightarrow> py_error + int" where
  "maxmin_calc s x =
     (case lower_limit s of
        None \<Rightarrow> Inl AttributeError
      | Some lo \<Rightarrow>
          if x < lo then Inr 1
          else (case upper_limit s of
                  None \<Rightarrow> Inl AttributeError
                | Some hi \<Rightarrow> if gt_bound x hi then Inr 1 else Inr 0))"

definition detect_maxmin_rupture :: "detector \<Rightarrow> py_error + bool \<times> detector" where
  "detect_maxmin_rupture s =
     (case data s of
        None \<Rightarrow> Inl AttributeError
      | Some f \<Rightarrow>
          (case apply_rows (maxmin_calc s) (values_col f) of
             Inl e \<Rightarrow> Inl e
           | Inr flags \<Rightarrow> Inr (True, s\<lparr>data := Some (f\<lparr>maxmin_alert := Some flags\<rparr>)\<rparr>)))"

text \<open>\<open>__mavg_delta_calc__\<close> on the \<open>'delta_ma'\<close> entry of a row.\<close>

definition mavg_delta_calc :: "detector \<Rightarrow> real \<Rightarrow> py_error + int" where
  "mavg_delta_calc s d =
     (case mavg_delta s of
        None \<Rightarrow> Inl AttributeError
      | Some md \<Rightarrow> if d < md * - 1 \<or> d > md then Inr 1 else Inr 0)"

definition detect_fast_slope :: "detector \<Rightarrow> py_error + bool \<times> detector" where
  "detect_fast_slope s =
     (case mavg_calc s of
        Inl e \<Rightarrow> Inl e
      | Inr s1 \<Rightarrow>
          (case data s1 of
             None \<Rightarrow> Inl AttributeError
           | Some f \<Rightarrow>
               (case delta_ma f of
                  None \<Rightarrow> Inl KeyError
                | Some dm \<Rightarrow>
                    (case apply_rows (mavg_delta_calc s1) dm of
                       Inl e \<Rightarrow> Inl e
                     | Inr flags \<Rightarrow>
                         Inr (True, s1\<lparr>data := Some (f\<lparr>delta_ma_alert := Some flags\<rparr>)\<rparr>)))))"

text \<open>The loop of \<open>detect_plateau\<close> over the \<open>'delta_ma'\<close> entries of the rows, from
  the counter \<open>pcnt\<close>: the list \<open>alert\<close> it builds.\<close>

fun plateau_loop :: "detector \<Rightarrow> int \<Rightarrow> real list \<Rightarrow> py_error + int list" where
  "plateau_loop s pcnt [] = Inr []"
| "plateau_loop s pcnt (d # ds) =
     (case plateau_delta s of
        None \<Rightarrow> Inl AttributeError
      | Some pd \<Rightarrow>
          let pcnt' = (if \<bar>d\<bar> < pd then pcnt + 1 else 0) in
          (case plateau_length s of
             None \<Rightarrow> Inl AttributeError
           | Some pl \<Rightarrow>
               (case plateau_loop s pcnt' ds of
                  Inl e \<Rightarrow> Inl e
                | Inr al \<Rightarrow> Inr ((if pcnt' > pl then 1 else 0) # al))))"

definition detect_plateau :: "detector \<Rightarrow> py_error + bool \<times> detector" where
  "detect_plateau s =
     (case mavg_calc s of
        Inl e \<Rightarrow> Inl e
      | Inr s1 \<Rightarrow>
          (case data s1 of
             None \<Rightarrow> Inl AttributeError
           | Some f \<Rightarrow>
               (case delta_ma f of
                  None \<Rightarrow> Inl KeyError
                | Some dm \<Rightarrow>
                    (case plateau_loop s1 0 dm of
                       Inl e \<Rightarrow> Inl e
                     | Inr al \<Rightarrow>
                         if length al \<noteq> length (values_col f) then Inl ValueError
                         else Inr (True, s1\<lparr>data := Some (f\<lparr>plateau_alert := Some al\<rparr>)\<rparr>)))))"

text \<open>\<open>column == 1\<close> on an int column and on a bool column (\<open>True == 1\<close>), and
  \<open>numpy.logical_or\<close> of two aligned columns.\<close>

definition eq_one :: "int list \<Rightarrow> bool list" where
  "eq_one xs = map (\<lambda>x. x = 1) xs"

definition bool_eq_one :: "bool list \<Rightarrow> bool list" where
  "bool_eq_one bs = map (\<lambda>b. (if b then (1::int) else 0) = 1) bs"

definition logical_or :: "bool list \<Rightarrow> bool list \<Rightarrow> bool list" where
  "logical_or xs ys = map2 (\<or>) xs ys"

definition detect_all :: "detector \<Rightarrow> py_error + bool \<times> detector" where
  "detect_all s =
     (case and_then (and_then (detect_maxmin_rupture s) detect_fast_slope) detect_plateau of
        Inl e \<Rightarrow> Inl e
      | Inr (ok, s3) \<Rightarrow>
          (case data s3 of
             None \<Rightarrow> Inl TypeError
           | Some f \<Rightarrow>
               (case maxmin_alert f of
                  None \<Rightarrow> Inl KeyError
                | Some mm \<Rightarrow>
                    (case delta_ma_alert f of
                       None \<Rightarrow> Inl KeyError
                     | Some da \<Rightarrow>
                         let a1 = logical_or (eq_one mm) (eq_one da) in
                         (case plateau_alert f of
                            None \<Rightarrow> Inl KeyError
                          | Some pa \<Rightarrow>
                              Inr (True, s3\<lparr>data := Some (f\<lparr>alert :=
                                     Some (logical_or (bool_eq_one a1) (eq_one pa))\<rparr>)\<rparr>))))))"

section \<open>Auto-tuning\<close>

text \<open>\<open>numpy.mean\<close> and \<open>numpy.std\<close> (population standard deviation, \<open>ddof = 0\<close>).\<close>

definition np_mean :: "real list \<Rightarrow> real" where
  "np_mean xs = sum_list xs / real (length xs)"



section \<open>Callers: sequences of setter calls\<close>

datatype setter_call =
    Set_data data_arg
  | Set_lower_limit pyval
  | Set_upper_limit pyval
  | Set_slow_mavg_window pyval
  | Set_fast_mavg_window pyval
  | Set_mavg_delta pyval
  | Set_plateau_length pyval
  | Set_plateau_delta pyval

fun call_setter :: "setter_call \<Rightarrow> detector \<Rightarrow> py_error + bool \<times> detector" where
  "call_setter (Set_data d) s = set_data d s"
| "call_setter (Set_lower_limit v) s = set_lower_limit v s"
| "call_setter (Set_upper_limit v) s = set_upper_limit v s"
| "call_setter (Set_slow_mavg_window v) s = set_slow_mavg_window v s"
| "call_setter (Set_fast_mavg_window v) s = set_fast_mavg_window v s"
| "call_setter (Set_mavg_delta v) s = set_mavg_delta v s"
| "call_setter (Set_plateau_length v) s = set_plateau_length v s"
| "call_setter (Set_plateau_delta v) s = set_plateau_delta v s"

text \<open>A caller that makes the calls one after the other on the same object, whatever
  they return.\<close>

fun run_setters :: "setter_call list \<Rightarrow> detector \<Rightarrow> py_error + detector" where
  "run_setters [] s = Inr s"
| "run_setters (c # cs) s =
     (case call_setter c s of Inl e \<Rightarrow> Inl e | Inr (ok, s') \<Rightarrow> run_setters cs s')"

text \<open>The four relational constraints on limits and windows.\<close>

definition invariants :: "detector \<Rightarrow> bool" where
  "invariants s =
     (case lower_limit s of None \<Rightarrow> False | Some lo \<Rightarrow>
      (case upper_limit s of None \<Rightarrow> False | Some PosInf \<Rightarrow> False | Some (Num hi) \<Rightarrow>
       (case slow_mavg_window s of None \<Rightarrow> False | Some sw \<Rightarrow>
        (case fast_mavg_window s of None \<Rightarrow> False | Some fw \<Rightarrow>
           lo < hi \<and> fw < sw \<and> 20 \<le> sw \<and> 5 \<le> fw))))"

text \<open>The plateau rule in the words of its specification: the counter \<open>run\<close> after
  sample \<open>i\<close>, started at \<open>run0\<close> before the first sample. It grows by one when
  \<open>|delta_ma[i]| < plateau_delta\<close> and is reset to 0 otherwise.\<close>

fun run_at :: "real \<Rightarrow> int \<Rightarrow> real list \<Rightarrow> nat \<Rightarrow> int" where
  "run_at pd run0 d 0 = (if \<bar>d ! 0\<bar> < pd then run0 + 1 else 0)"
| "run_at pd run0 d (Suc i) = (if \<bar>d ! Suc i\<bar> < pd then run_at pd run0 d i + 1 else 0)"

text \<open>A constructed detector: every attribute is set, and the constraints the
  setters enforce hold.\<close>

definition configured :: "detector \<Rightarrow> bool" where
  "configured s =
     (invariants s \<and> mavg_delta s \<noteq> None
      \<and> (case plateau_length s of None \<Rightarrow> False | Some pl \<Rightarrow> 10 \<le> pl)
      \<and> (case plateau_delta s of None \<Rightarrow> False | Some pd \<Rightarrow> 0 \<le> pd))"

text \<open>How a call signals its outcome: an explicit failure signal is the return value
  \<open>False\<close> (as the setters give); a raised exception is not.\<close>

definition returns_False :: "py_error + bool \<times> detector \<Rightarrow> bool" where
  "returns_False r = (case r of Inl e \<Rightarrow> False | Inr (ok, s) \<Rightarrow> \<not> ok)"


section \<open>Construction and the configuration store\<close>

text \<open>\<open>AlertDetector()\<close> on a fresh object never raises and leaves the documented
  defaults.\<close>

lemma init_new_object: "init new_object = Inr default_detector"
  by (simp add: init_def and_then_def new_object_def default_detector_def
      set_lower_limit_def set_upper_limit_def set_slow_mavg_window_def
      set_fast_mavg_window_def set_mavg_delta_def set_plateau_length_def
      set_plateau_delta_def set_mavg_delta_locals_def LOWER_LIMIT_def UPPER_LIMIT_def
      SLOW_MAVG_WINDOW_def FAST_MAVG_WINDOW_def MAVG_DELTA_def PLATEAU_LENGTH_def
      PLATEAU_DELTA_def)

lemma invariants_iff:
  "invariants s \<longleftrightarrow> (\<exists>lo hi sw fw. lower_limit s = Some lo \<and> upper_limit s = Some (Num hi)
      \<and> slow_mavg_window s = Some sw \<and> fast_mavg_window s = Some fw
      \<and> lo < hi \<and> fw < sw \<and> 20 \<le> sw \<and> 5 \<le> fw)"
  unfolding invariants_def by (auto split: option.split bound.split)

lemma upd_same_upper: "upper_limit s = Some u \<Longrightarrow> s\<lparr>upper_limit := Some u\<rparr> = s"
  by (cases s) simp

lemma upd_same_fast: "fast_mavg_window s = Some fw \<Longrightarrow> s\<lparr>fast_mavg_window := Some fw\<rparr> = s"
  by (cases s) simp






lemma set_mavg_delta_eq:
  "set_mavg_delta v s =
     (if \<not> isinstance_float v \<and> \<not> isinstance_int v then Inr (False, s)
      else Inr (True, s\<lparr>mavg_delta := Some (num_of v)\<rparr>))"
  by (simp add: set_mavg_delta_def set_mavg_delta_locals_def)







lemma configured_iff:
  "configured s \<longleftrightarrow> invariants s \<and> (\<exists>md pl pd. mavg_delta s = Some md
      \<and> plateau_length s = Some pl \<and> plateau_delta s = Some pd \<and> 10 \<le> pl \<and> 0 \<le> pd)"
  unfolding configured_def by (auto split: option.split)

lemma configured_default: "configured default_detector"
  by (simp add: configured_def invariants_def default_detector_def)

text \<open>Every setter keeps a constructed detector constructed.\<close>

lemma call_setter_configured:
  assumes "configured s"
  shows "\<exists>ok s'. call_setter c s = Inr (ok, s') \<and> configured s'"
proof -
  from assms obtain lo hi sw fw md pl pd where g: "lower_limit s = Some lo"
      "upper_limit s = Some (Num hi)" "slow_mavg_window s = Some sw"
      "fast_mavg_window s = Some fw" "lo < hi" "fw < sw" "20 \<le> sw" "5 \<le> fw"
      "mavg_delta s = Some md" "plateau_length s = Some pl" "plateau_delta s = Some pd"
      "10 \<le> pl" "0 \<le> pd"
    unfolding configured_iff invariants_iff by blast
  have u: "s\<lparr>upper_limit := Some (Num hi)\<rparr> = s" using g(2) by (rule upd_same_upper)
  have f: "s\<lparr>fast_mavg_window := Some fw\<rparr> = s" using g(4) by (rule upd_same_fast)
  show ?thesis
  proof (cases c)
    case (Set_data d)
    then show ?thesis using g
      by (cases d) (auto simp: set_data_def configured_iff invariants_iff)
  next
    case (Set_lower_limit v)
    then show ?thesis using g
      by (auto simp: set_lower_limit_def Let_def u configured_iff invariants_iff)
  next
    case (Set_upper_limit v)
    then show ?thesis using g
      by (auto simp: set_upper_limit_def configured_iff invariants_iff)
  next
    case (Set_slow_mavg_window v)
    then show ?thesis using g
      by (auto simp: set_slow_mavg_window_def Let_def f configured_iff invariants_iff)
  next
    case (Set_fast_mavg_window v)
    then show ?thesis using g
      by (auto simp: set_fast_mavg_window_def configured_iff invariants_iff)
  next
    case (Set_mavg_delta v)
    then show ?thesis using g
      by (auto simp: set_mavg_delta_eq configured_iff invariants_iff)
  next
    case (Set_plateau_length v)
    then show ?thesis using g
      by (auto simp: set_plateau_length_def configured_iff invariants_iff)
  next
    case (Set_plateau_delta v)
    then show ?thesis using g
      by (auto simp: set_plateau_delta_def configured_iff invariants_iff)
  qed
qed

lemma run_setters_configured:
  "configured s \<Longrightarrow> \<exists>s'. run_setters cs s = Inr s' \<and> configured s'"
proof (induction cs arbitrary: s)
  case Nil
  then show ?case by simp
next
  case (Cons c cs)
  from call_setter_configured [OF Cons.prems, of c]
  obtain ok s1 where "call_setter c s = Inr (ok, s1)" "configured s1" by blast
  with Cons.IH [of s1] show ?case by simp
qed






section \<open>The moving-average engine\<close>

lemma window_as_map:
  assumes "n + w \<le> length xs"
  shows "take w (drop n xs) = map (\<lambda>m. xs ! (n + m)) [0..<w]"
proof (rule nth_equalityI)
  show "length (take w (drop n xs)) = length (map (\<lambda>m. xs ! (n + m)) [0..<w])"
    using assms by simp
next
  fix i assume "i < length (take w (drop n xs))"
  then show "take w (drop n xs) ! i = map (\<lambda>m. xs ! (n + m)) [0..<w] ! i"
    using assms by simp
qed

lemma correlate_ones:
  "sum_list (map (\<lambda>m. a ! (n + m) * rev (replicate w (1::real)) ! m) [0..<w])
     = sum_list (map (\<lambda>m. a ! (n + m)) [0..<w])"
proof -
  have "map (\<lambda>m. a ! (n + m) * rev (replicate w (1::real)) ! m) [0..<w]
          = map (\<lambda>m. a ! (n + m)) [0..<w]"
    by (rule map_cong) simp_all
  then show ?thesis by (rule arg_cong)
qed

lemma convolve_valid_ones:
  assumes "0 < w" "w \<le> length xs"
  shows "convolve_valid xs (replicate w 1)
           = Inr (map (\<lambda>n. sum_list (take w (drop n xs))) [0..<length xs - w + 1])"
proof -
  have "map (\<lambda>n. sum_list (map (\<lambda>m. xs ! (n + m) * rev (replicate w (1::real)) ! m) [0..<w]))
            [0..<length xs - w + 1]
        = map (\<lambda>n. sum_list (take w (drop n xs))) [0..<length xs - w + 1]"
  proof (rule map_cong)
    fix n assume "n \<in> set [0..<length xs - w + 1]"
    then have "n + w \<le> length xs" using assms by auto
    then show "sum_list (map (\<lambda>m. xs ! (n + m) * rev (replicate w (1::real)) ! m) [0..<w])
                 = sum_list (take w (drop n xs))"
      by (simp only: correlate_ones window_as_map)
  qed (rule refl)
  note h = this
  have l: "\<not> length (replicate w (1::real)) > length xs" "length xs \<noteq> 0"
    "length (replicate w (1::real)) = w" "w \<noteq> 0" "\<not> length xs < w"
    using assms by auto
  show ?thesis
    unfolding convolve_valid_def Let_def by (simp only: l if_False h)
qed

lemma convolve_valid_ones_long:
  assumes "xs \<noteq> []" "length xs < w"
  shows "\<exists>c. convolve_valid xs (replicate w 1) = Inr c \<and> length c = w - length xs + 1"
  using assms by (simp add: convolve_valid_def Let_def)

text \<open>The result of \<open>__moving_average__\<close> for a window that fits the series.\<close>

lemma moving_average_fits:
  assumes "data s = Some f" "1 \<le> w" "w \<le> int (length (values_col f))"
  shows "moving_average s w
           = Inr (map (\<lambda>n. sum_list (take (nat w) (drop n (values_col f))) / real_of_int w)
                    [0..<length (values_col f) - nat w + 1]
                  @ replicate (nat w - 1) (last (values_col f)))"
proof -
  have ne: "values_col f \<noteq> []" using assms by auto
  have c: "convolve_valid (values_col f) (replicate (nat w) 1)
             = Inr (map (\<lambda>n. sum_list (take (nat w) (drop n (values_col f))))
                      [0..<length (values_col f) - nat w + 1])"
    using assms by (intro convolve_valid_ones) auto
  have n: "nat (w - 1) = nat w - 1" by simp
  show ?thesis
    using assms ne by (simp add: moving_average_def np_ones_def c n o_def)
qed

lemma moving_average_long:
  assumes "data s = Some f" "values_col f \<noteq> []" "int (length (values_col f)) < w"
  shows "\<exists>ys. moving_average s w = Inr ys
           \<and> int (length ys) = 2 * w - int (length (values_col f))"
proof -
  from assms have "length (values_col f) < nat w" by auto
  from convolve_valid_ones_long [OF assms(2) this]
  obtain c where c: "convolve_valid (values_col f) (replicate (nat w) 1) = Inr c"
     "length c = nat w - length (values_col f) + 1" by blast
  show ?thesis
    using assms c by (simp add: moving_average_def np_ones_def)
qed

lemma values_col_DataFrame_values: "values_col (DataFrame_values xs) = xs"
  by (simp add: DataFrame_values_def)

lemma moving_average_fits_length:
  assumes "data s = Some f" "1 \<le> w" "w \<le> int (length (values_col f))"
  shows "\<exists>ys. moving_average s w = Inr ys \<and> length ys = length (values_col f)"
  using assms by (simp add: moving_average_fits [OF assms])

text \<open>
  Claim C1, as the source has it. For a loaded series of length \<open>N\<close> and a window
  \<open>1 \<le> w \<le> N\<close> (slow or fast), \<open>__moving_average__(w)\<close> has \<open>N\<close> entries; the entry at
  position \<open>i \<le> N - w\<close> is the arithmetic mean of \<open>series[i..i+w-1]\<close>; the last \<open>w - 1\<close>
  positions, which have no full window, repeat the raw last reading \<open>series[N-1]\<close>
  (\<open>pad\<close> is built from \<open>list(self.data['values'])[-1]\<close>), not the mean of the last full
  window.
\<close>

theorem moving_average_mean_then_last_value:
  assumes "data s = Some f" "1 \<le> w" "w \<le> int (length (values_col f))"
  shows "\<exists>ys. moving_average s w = Inr ys \<and> length ys = length (values_col f)
     \<and> (\<forall>i. int i \<le> int (length (values_col f)) - w
            \<longrightarrow> ys ! i = np_mean (take (nat w) (drop i (values_col f))))
     \<and> (\<forall>i. int (length (values_col f)) - w < int i \<and> i < length (values_col f)
            \<longrightarrow> ys ! i = last (values_col f))"
proof -
  define xs where "xs = values_col f"
  define k where "k = nat w"
  define ms where "ms = map (\<lambda>n. sum_list (take k (drop n xs)) / real_of_int w) [0..<length xs - k + 1]"
  define ys where "ys = ms @ replicate (k - 1) (last xs)"
  have k: "0 < k" "k \<le> length xs" "int k = w" using assms by (auto simp: k_def xs_def)
  have r: "moving_average s w = Inr ys"
    unfolding ys_def ms_def k_def xs_def by (rule moving_average_fits [OF assms])
  have lm: "length ms = length xs - k + 1" by (simp add: ms_def)
  have l: "length ys = length xs" using k by (simp add: ys_def lm)
  have m: "ys ! i = np_mean (take k (drop i xs))" if "int i \<le> int (length xs) - w" for i
  proof -
    have i: "i < length xs - k + 1" "i + k \<le> length xs" using that k by linarith+
    have "ys ! i = ms ! i" using i lm by (simp add: ys_def nth_append)
    also have "\<dots> = sum_list (take k (drop i xs)) / real_of_int w"
      using i(1) unfolding ms_def by (simp del: upt_Suc)
    also have "\<dots> = np_mean (take k (drop i xs))"
    proof -
      have "length (take k (drop i xs)) = k" using i(2) by simp
      moreover have "real k = real_of_int w" using k(3) by linarith
      ultimately show ?thesis by (simp only: np_mean_def)
    qed
    finally show ?thesis .
  qed
  have p: "ys ! i = last xs" if "int (length xs) - w < int i" "i < length xs" for i
  proof -
    have i: "\<not> i < length ms" "i - length ms < k - 1" using that k lm by linarith+
    then show ?thesis by (simp add: ys_def nth_append)
  qed
  show ?thesis using r l m p unfolding xs_def k_def by blast
qed

theorem moving_average_mean_then_last_value_witness:
  "data (default_detector\<lparr>data := Some (DataFrame_values (replicate 20 0 @ [1]))\<rparr>)
     = Some (DataFrame_values (replicate 20 0 @ [1]))
   \<and> (1::int) \<le> 5 \<and> (5::int) \<le> int (length (values_col (DataFrame_values (replicate 20 0 @ [1]))))
   \<and> (\<exists>ys. moving_average (default_detector\<lparr>data := Some (DataFrame_values (replicate 20 0 @ [1]))\<rparr>) 5 = Inr ys
        \<and> length ys = 21
        \<and> (\<forall>i. int i \<le> 16 \<longrightarrow> ys ! i = np_mean (take 5 (drop i (replicate 20 0 @ [1]))))
        \<and> (\<forall>i. 16 < int i \<and> i < 21 \<longrightarrow> ys ! i = 1))"
  using moving_average_mean_then_last_value
    [of "default_detector\<lparr>data := Some (DataFrame_values (replicate 20 0 @ [1]))\<rparr>"
        "DataFrame_values (replicate 20 0 @ [1])" 5]
  by (simp add: values_col_DataFrame_values)

theorem moving_average_pad_counterexample:
  "set_data (Frame (DataFrame_values (replicate 20 0 @ [1]))) default_detector
     = Inr (True, default_detector\<lparr>data := Some (DataFrame_values (replicate 20 0 @ [1]))\<rparr>)
   \<and> moving_average (default_detector\<lparr>data := Some (DataFrame_values (replicate 20 0 @ [1]))\<rparr>) 5
     = Inr (replicate 16 0 @ [1 / 5, 1, 1, 1, 1])
   \<and> np_mean (take 5 (drop 16 (replicate 20 0 @ [1]))) = 1 / 5
   \<and> (replicate 16 0 @ [1 / 5, 1, 1, 1, 1 :: real]) ! 17 \<noteq> 1 / 5"
proof -
  have d: "data (default_detector\<lparr>data := Some (DataFrame_values (replicate 20 0 @ [1]))\<rparr>)
     = Some (DataFrame_values (replicate 20 0 @ [1]))" by simp
  have m: "moving_average (default_detector\<lparr>data := Some (DataFrame_values (replicate 20 0 @ [1]))\<rparr>) 5
     = Inr (replicate 16 0 @ [1 / 5, 1, 1, 1, 1])"
    by (subst moving_average_fits [OF d])
      (simp_all add: values_col_DataFrame_values upt_rec numeral_eq_Suc)
  have n: "np_mean (take 5 (drop 16 (replicate 20 0 @ [1]))) = 1 / 5"
    by (simp add: np_mean_def numeral_eq_Suc)
  have e: "(replicate 16 0 @ [1 / 5, 1, 1, 1, 1 :: real]) ! 17 \<noteq> 1 / 5"
    by (simp add: numeral_eq_Suc)
  show ?thesis
    using m n e by (simp add: set_data_def values_col_DataFrame_values)
qed

lemma mavg_calc_fits:
  assumes "invariants s" "data s = Some f" "slow_mavg_window s = Some sw"
    "fast_mavg_window s = Some fw" "sw \<le> int (length (values_col f))"
  shows "\<exists>sma fma. moving_average s sw = Inr sma \<and> moving_average s fw = Inr fma
     \<and> length sma = length (values_col f) \<and> length fma = length (values_col f)
     \<and> mavg_calc s = Inr (s\<lparr>data := Some (f\<lparr>slow_ma := Some sma, fast_ma := Some fma,
                              delta_ma := Some (map2 (-) sma fma)\<rparr>)\<rparr>)"
proof -
  from assms(1,3,4) have w: "fw < sw" "20 \<le> sw" "5 \<le> fw"
    unfolding invariants_iff by auto
  from moving_average_fits_length [OF assms(2), of sw] w assms(5)
  obtain sma where a: "moving_average s sw = Inr sma" "length sma = length (values_col f)"
    by auto
  from moving_average_fits_length [OF assms(2), of fw] w assms(5)
  obtain fma where b: "moving_average s fw = Inr fma" "length fma = length (values_col f)"
    by auto
  show ?thesis
    using a b assms(2,3,4) by (simp add: mavg_calc_def)
qed

text \<open>\<open>__mavg_calc__\<close> returns only when the slow window fits the series.\<close>

lemma mavg_calc_returns_fits:
  assumes "data s = Some f" "slow_mavg_window s = Some sw" "mavg_calc s = Inr s1"
  shows "sw \<le> int (length (values_col f))"
proof (rule ccontr)
  assume "\<not> sw \<le> int (length (values_col f))"
  then have lt: "int (length (values_col f)) < sw" by simp
  show False
  proof (cases "values_col f = []")
    case True
    then have "moving_average s sw = Inl IndexError"
      using assms(1) by (simp add: moving_average_def)
    then show False using assms by (simp add: mavg_calc_def)
  next
    case False
    from moving_average_long [OF assms(1) False lt]
    obtain ys where ys: "moving_average s sw = Inr ys"
        "int (length ys) = 2 * sw - int (length (values_col f))"
      by blast
    from ys(2) lt have "length ys \<noteq> length (values_col f)" by linarith
    then show False using assms ys(1) by (simp add: mavg_calc_def)
  qed
qed

text \<open>
  Claim C9, as the source has it. For a loaded series of length \<open>N\<close> and a configuration
  satisfying the window constraints with \<open>slow_mavg_window \<le> N\<close>, \<open>__mavg_calc__\<close>
  returns, \<open>slow_ma\<close> and \<open>fast_ma\<close> are the results of \<open>__moving_average__\<close> for the two
  windows, the three derived columns have exactly \<open>N\<close> entries, and
  \<open>delta_ma[i] = slow_ma[i] - fast_ma[i]\<close> at every index. (The padding does not preserve
  the length for a window longer than the series.)
\<close>

theorem mavg_calc_lengths_and_delta:
  assumes "invariants s" "data s = Some f" "slow_mavg_window s = Some sw"
    "fast_mavg_window s = Some fw" "sw \<le> int (length (values_col f))"
  shows "\<exists>sma fma dma.
       moving_average s sw = Inr sma \<and> moving_average s fw = Inr fma
     \<and> mavg_calc s = Inr (s\<lparr>data := Some (f\<lparr>slow_ma := Some sma, fast_ma := Some fma,
                              delta_ma := Some dma\<rparr>)\<rparr>)
     \<and> length sma = length (values_col f)
     \<and> length fma = length (values_col f)
     \<and> length dma = length (values_col f)
     \<and> (\<forall>i < length (values_col f). dma ! i = sma ! i - fma ! i)"
proof -
  from mavg_calc_fits [OF assms]
  obtain sma fma where r: "moving_average s sw = Inr sma" "moving_average s fw = Inr fma"
      "length sma = length (values_col f)"
      "length fma = length (values_col f)"
      "mavg_calc s = Inr (s\<lparr>data := Some (f\<lparr>slow_ma := Some sma, fast_ma := Some fma,
                              delta_ma := Some (map2 (-) sma fma)\<rparr>)\<rparr>)"
    by blast
  have "length (map2 (-) sma fma) = length (values_col f)" using r by simp
  moreover have "\<forall>i < length (values_col f). map2 (-) sma fma ! i = sma ! i - fma ! i"
    using r by simp
  ultimately show ?thesis using r by blast
qed

theorem mavg_calc_lengths_and_delta_witness:
  "invariants (default_detector\<lparr>data := Some (DataFrame_values (replicate 21 500))\<rparr>)
   \<and> data (default_detector\<lparr>data := Some (DataFrame_values (replicate 21 500))\<rparr>)
       = Some (DataFrame_values (replicate 21 500))
   \<and> slow_mavg_window (default_detector\<lparr>data := Some (DataFrame_values (replicate 21 500))\<rparr>)
       = Some 20
   \<and> fast_mavg_window (default_detector\<lparr>data := Some (DataFrame_values (replicate 21 500))\<rparr>)
       = Some 5
   \<and> (20::int) \<le> int (length (values_col (DataFrame_values (replicate 21 500))))
   \<and> (\<exists>sma fma dma.
       moving_average (default_detector\<lparr>data := Some (DataFrame_values (replicate 21 500))\<rparr>) 20
         = Inr sma
     \<and> moving_average (default_detector\<lparr>data := Some (DataFrame_values (replicate 21 500))\<rparr>) 5
         = Inr fma
     \<and> mavg_calc (default_detector\<lparr>data := Some (DataFrame_values (replicate 21 500))\<rparr>)
         = Inr (default_detector\<lparr>data := Some (DataFrame_values (replicate 21 500)
               \<lparr>slow_ma := Some sma, fast_ma := Some fma, delta_ma := Some dma\<rparr>)\<rparr>)
     \<and> length sma = 21 \<and> length fma = 21 \<and> length dma = 21
     \<and> (\<forall>i < 21. dma ! i = sma ! i - fma ! i))"
proof -
  have i: "invariants (default_detector\<lparr>data := Some (DataFrame_values (replicate 21 500))\<rparr>)"
    by (simp add: invariants_def default_detector_def)
  have s: "slow_mavg_window (default_detector\<lparr>data := Some (DataFrame_values (replicate 21 500))\<rparr>)
       = Some 20"
    by (simp add: default_detector_def)
  have f: "fast_mavg_window (default_detector\<lparr>data := Some (DataFrame_values (replicate 21 500))\<rparr>)
       = Some 5"
    by (simp add: default_detector_def)
  have l: "(20::int) \<le> int (length (values_col (DataFrame_values (replicate 21 500))))"
    by (simp add: values_col_DataFrame_values)
  show ?thesis
    using i s f l mavg_calc_lengths_and_delta [OF i _ s f l]
    by (simp add: values_col_DataFrame_values)
qed

theorem mavg_calc_long_window_counterexample:
  "run_setters [Set_data (Frame (DataFrame_values (replicate 21 500))),
                Set_slow_mavg_window (PyInt 30)] default_detector
     = Inr (default_detector\<lparr>data := Some (DataFrame_values (replicate 21 500)),
                              slow_mavg_window := Some 30\<rparr>)
   \<and> length (values_col (DataFrame_values (replicate 21 500))) = 21
   \<and> (\<exists>ys. moving_average (default_detector\<lparr>data := Some (DataFrame_values (replicate 21 500)),
                              slow_mavg_window := Some 30\<rparr>) 30 = Inr ys
          \<and> length ys = 39)
   \<and> mavg_calc (default_detector\<lparr>data := Some (DataFrame_values (replicate 21 500)),
                              slow_mavg_window := Some 30\<rparr>) = Inl ValueError"
proof -
  define s where "s = default_detector\<lparr>data := Some (DataFrame_values (replicate 21 500)),
                              slow_mavg_window := Some 30\<rparr>"
  have d: "data s = Some (DataFrame_values (replicate 21 500))" by (simp add: s_def)
  have n: "values_col (DataFrame_values (replicate 21 500)) \<noteq> []"
    by (simp add: values_col_DataFrame_values)
  have l: "int (length (values_col (DataFrame_values (replicate 21 500)))) < 30"
    by (simp add: values_col_DataFrame_values)
  from moving_average_long [OF d n l]
  obtain ys where ys: "moving_average s 30 = Inr ys" "length ys = 39"
    by (auto simp: values_col_DataFrame_values)
  have sw: "slow_mavg_window s = Some 30" by (simp add: s_def)
  have m: "mavg_calc s = Inl ValueError"
    using d sw ys by (simp add: mavg_calc_def values_col_DataFrame_values)
  have r: "run_setters [Set_data (Frame (DataFrame_values (replicate 21 500))),
                Set_slow_mavg_window (PyInt 30)] default_detector = Inr s"
    by (simp add: s_def set_data_def set_slow_mavg_window_def values_col_DataFrame_values
        default_detector_def)
  show ?thesis
    using r ys m unfolding s_def by (simp add: values_col_DataFrame_values)
qed

section \<open>The rupture rule\<close>

lemma apply_rows_total:
  "(\<And>x. x \<in> set xs \<Longrightarrow> g x = Inr (h x)) \<Longrightarrow> apply_rows g xs = Inr (map h xs)"
  by (induction xs) simp_all

lemma invariants_data_update: "invariants (s\<lparr>data := d\<rparr>) = invariants s"
  by (simp add: invariants_iff)

lemma configured_data_update: "configured (s\<lparr>data := d\<rparr>) = configured s"
  by (simp add: configured_def invariants_data_update)

lemma detect_maxmin_rupture_result:
  assumes "data s = Some f" "lower_limit s = Some lo" "upper_limit s = Some (Num hi)"
  shows "detect_maxmin_rupture s
     = Inr (True, s\<lparr>data := Some (f\<lparr>maxmin_alert :=
              Some (map (\<lambda>x. if x < lo \<or> x > hi then 1 else 0) (values_col f))\<rparr>)\<rparr>)"
proof -
  have "apply_rows (maxmin_calc s) (values_col f)
          = Inr (map (\<lambda>x. if x < lo \<or> x > hi then 1 else 0) (values_col f))"
    by (rule apply_rows_total) (simp add: maxmin_calc_def assms)
  then show ?thesis by (simp add: detect_maxmin_rupture_def assms)
qed



text \<open>
  Claim C2, as the source has it. The detection operations do not check that a series
  is loaded. Called while \<open>data\<close> is \<open>None\<close>, \<open>detect_maxmin_rupture\<close> raises the
  \<open>AttributeError\<close> of \<open>self.data.apply\<close> (it does not return \<open>False\<close>), and so does
  \<open>detect_all\<close>; \<open>detect_fast_slope\<close> and \<open>detect_plateau\<close> raise the \<open>TypeError\<close> of
  \<open>data['values']\<close>.
\<close>

theorem detect_without_data_raises:
  assumes "data s = None"
  shows "detect_maxmin_rupture s = Inl AttributeError
     \<and> \<not> returns_False (detect_maxmin_rupture s)
     \<and> detect_fast_slope s = Inl TypeError
     \<and> detect_plateau s = Inl TypeError
     \<and> detect_all s = Inl AttributeError"
  using assms
  by (simp add: detect_maxmin_rupture_def detect_fast_slope_def detect_plateau_def
      detect_all_def mavg_calc_def and_then_def returns_False_def)

theorem detect_without_data_raises_witness:
  "data default_detector = None
   \<and> detect_maxmin_rupture default_detector = Inl AttributeError
   \<and> \<not> returns_False (detect_maxmin_rupture default_detector)
   \<and> detect_fast_slope default_detector = Inl TypeError
   \<and> detect_plateau default_detector = Inl TypeError
   \<and> detect_all default_detector = Inl AttributeError"
proof -
  have d: "data default_detector = None" by (simp add: default_detector_def)
  show ?thesis using d detect_without_data_raises [OF d] by blast
qed

theorem detect_before_load_counterexample:
  "init new_object = Inr default_detector
   \<and> set_data FrameNoValues default_detector = Inr (False, default_detector)
   \<and> detect_maxmin_rupture default_detector = Inl AttributeError
   \<and> \<not> returns_False (detect_maxmin_rupture default_detector)"
  by (simp add: init_new_object set_data_def detect_maxmin_rupture_def returns_False_def
      default_detector_def)

section \<open>The plateau rule\<close>

lemma run_at_Cons:
  "run_at pd c (x # ds) (Suc i) = run_at pd (if \<bar>x\<bar> < pd then c + 1 else 0) ds i"
  by (induction i) simp_all

lemma plateau_loop_run_at:
  assumes "plateau_delta s = Some pd" "plateau_length s = Some pl"
  shows "\<exists>al. plateau_loop s c ds = Inr al \<and> length al = length ds
           \<and> (\<forall>i < length ds. al ! i = (if run_at pd c ds i > pl then 1 else 0))"
proof (induction ds arbitrary: c)
  case Nil
  then show ?case by simp
next
  case (Cons x ds)
  define c' where "c' = (if \<bar>x\<bar> < pd then c + 1 else 0)"
  from Cons.IH [of c'] obtain al where al: "plateau_loop s c' ds = Inr al"
      "length al = length ds"
      "\<forall>i < length ds. al ! i = (if run_at pd c' ds i > pl then 1 else 0)"
    by blast
  have r: "plateau_loop s c (x # ds) = Inr ((if c' > pl then 1 else 0) # al)"
    using al(1) assms by (simp add: c'_def Let_def)
  have n: "((if c' > pl then 1 else 0) # al) ! i = (if run_at pd c (x # ds) i > pl then 1 else 0)"
    if "i < length (x # ds)" for i
  proof (cases i)
    case 0
    then show ?thesis by (simp add: c'_def)
  next
    case (Suc j)
    then have "j < length ds" using that by simp
    then show ?thesis using al(3) Suc by (simp add: run_at_Cons c'_def del: run_at.simps)
  qed
  show ?case using r al(2) n by auto
qed


lemma run_at_delta_zero: "run_at 0 0 ds i = 0"
  by (induction i) simp_all


lemma detect_plateau_result:
  assumes "invariants s" "data s = Some f" "slow_mavg_window s = Some sw"
    "fast_mavg_window s = Some fw" "sw \<le> int (length (values_col f))"
    "plateau_delta s = Some pd" "plateau_length s = Some pl"
  shows "\<exists>sma fma al.
       moving_average s sw = Inr sma \<and> moving_average s fw = Inr fma
     \<and> length sma = length (values_col f) \<and> length fma = length (values_col f)
     \<and> detect_plateau s = Inr (True, s\<lparr>data := Some (f\<lparr>slow_ma := Some sma,
           fast_ma := Some fma, delta_ma := Some (map2 (-) sma fma),
           plateau_alert := Some al\<rparr>)\<rparr>)
     \<and> length al = length (values_col f)
     \<and> (\<forall>i < length (values_col f).
           al ! i = (if run_at pd 0 (map2 (-) sma fma) i > pl then 1 else 0))"
proof -
  from mavg_calc_fits [OF assms(1-5)]
  obtain sma fma where m: "moving_average s sw = Inr sma" "moving_average s fw = Inr fma"
      "length sma = length (values_col f)" "length fma = length (values_col f)"
      "mavg_calc s = Inr (s\<lparr>data := Some (f\<lparr>slow_ma := Some sma, fast_ma := Some fma,
                              delta_ma := Some (map2 (-) sma fma)\<rparr>)\<rparr>)"
    by blast
  define s1 where "s1 = s\<lparr>data := Some (f\<lparr>slow_ma := Some sma, fast_ma := Some fma,
                              delta_ma := Some (map2 (-) sma fma)\<rparr>)\<rparr>"
  have p: "plateau_delta s1 = Some pd" "plateau_length s1 = Some pl"
    using assms(6,7) by (simp_all add: s1_def)
  from plateau_loop_run_at [OF p, of 0 "map2 (-) sma fma"]
  obtain al where al: "plateau_loop s1 0 (map2 (-) sma fma) = Inr al"
      "length al = length (map2 (-) sma fma)"
      "\<forall>i < length (map2 (-) sma fma).
          al ! i = (if run_at pd 0 (map2 (-) sma fma) i > pl then 1 else 0)"
    by blast
  have l: "length (map2 (-) sma fma) = length (values_col f)" using m(3,4) by simp
  have "detect_plateau s = Inr (True, s1\<lparr>data := Some (f\<lparr>slow_ma := Some sma,
           fast_ma := Some fma, delta_ma := Some (map2 (-) sma fma),
           plateau_alert := Some al\<rparr>)\<rparr>)"
    using m(5) al(1,2) l unfolding s1_def [symmetric]
    by (simp add: detect_plateau_def s1_def)
  then have "detect_plateau s = Inr (True, s\<lparr>data := Some (f\<lparr>slow_ma := Some sma,
           fast_ma := Some fma, delta_ma := Some (map2 (-) sma fma),
           plateau_alert := Some al\<rparr>)\<rparr>)"
    by (simp add: s1_def)
  then show ?thesis using m(1-4) al(2,3) l by auto
qed

lemma mavg_calc_Inr:
  assumes "mavg_calc s = Inr s1"
  shows "\<exists>f f1. data s = Some f \<and> s1 = s\<lparr>data := Some f1\<rparr>
           \<and> values_col f1 = values_col f \<and> delta_ma f1 \<noteq> None"
proof -
  from assms obtain f where f: "data s = Some f"
    by (cases "data s") (simp_all add: mavg_calc_def)
  from assms f obtain sw where sw: "slow_mavg_window s = Some sw"
    by (cases "slow_mavg_window s") (simp_all add: mavg_calc_def)
  from assms f sw obtain sma where sma: "moving_average s sw = Inr sma"
    by (cases "moving_average s sw") (simp_all add: mavg_calc_def)
  from assms f sw sma have ls: "length sma = length (values_col f)"
    by (simp add: mavg_calc_def split: if_splits)
  from assms f sw sma ls obtain fw where fw: "fast_mavg_window s = Some fw"
    by (cases "fast_mavg_window s") (simp_all add: mavg_calc_def)
  from assms f sw sma ls fw obtain fma where fma: "moving_average s fw = Inr fma"
    by (cases "moving_average s fw") (simp_all add: mavg_calc_def)
  from assms f sw sma ls fw fma
  have "s1 = s\<lparr>data := Some (f\<lparr>slow_ma := Some sma, fast_ma := Some fma,
                              delta_ma := Some (map2 (-) sma fma)\<rparr>)\<rparr>"
    by (simp add: mavg_calc_def split: if_splits)
  then have "s1 = s\<lparr>data := Some (f\<lparr>slow_ma := Some sma, fast_ma := Some fma,
                              delta_ma := Some (map2 (-) sma fma)\<rparr>)\<rparr>
      \<and> values_col (f\<lparr>slow_ma := Some sma, fast_ma := Some fma,
                              delta_ma := Some (map2 (-) sma fma)\<rparr>) = values_col f
      \<and> delta_ma (f\<lparr>slow_ma := Some sma, fast_ma := Some fma,
                              delta_ma := Some (map2 (-) sma fma)\<rparr>) \<noteq> None"
    by simp
  then show ?thesis using f by blast
qed

lemma detect_plateau_Inr:
  assumes "detect_plateau s = Inr (ok, s')"
  shows "\<exists>s1 f1 dm al. mavg_calc s = Inr s1 \<and> data s1 = Some f1 \<and> delta_ma f1 = Some dm
           \<and> plateau_loop s1 0 dm = Inr al \<and> length al = length (values_col f1)
           \<and> ok \<and> s' = s1\<lparr>data := Some (f1\<lparr>plateau_alert := Some al\<rparr>)\<rparr>"
proof -
  from assms obtain s1 where s1: "mavg_calc s = Inr s1"
    by (cases "mavg_calc s") (simp_all add: detect_plateau_def)
  from assms s1 obtain f1 where f1: "data s1 = Some f1"
    by (cases "data s1") (simp_all add: detect_plateau_def)
  from assms s1 f1 obtain dm where dm: "delta_ma f1 = Some dm"
    by (cases "delta_ma f1") (simp_all add: detect_plateau_def)
  from assms s1 f1 dm obtain al where al: "plateau_loop s1 0 dm = Inr al"
    by (cases "plateau_loop s1 0 dm") (simp_all add: detect_plateau_def)
  from assms s1 f1 dm al
  have "length al = length (values_col f1) \<and> ok
          \<and> s' = s1\<lparr>data := Some (f1\<lparr>plateau_alert := Some al\<rparr>)\<rparr>"
    by (simp add: detect_plateau_def split: if_splits)
  then show ?thesis using s1 f1 dm al by blast
qed





text \<open>
  Claim C10. \<open>set_plateau_delta\<close> accepts 0. With \<open>plateau_delta = 0\<close> on a constructed
  detector, whenever \<open>detect_plateau\<close> returns, the column \<open>plateau_alert\<close> it stored
  is all zero, whatever the series (a constant one included): \<open>|delta_ma[i]| < 0\<close> never
  holds, so the counter stays 0, which is not above \<open>plateau_length \<ge> 10\<close>. It does
  return when the slow window fits the series.
\<close>

theorem detect_plateau_zero_delta:
  assumes "configured s" "plateau_delta s = Some 0" "data s = Some f"
  shows "set_plateau_delta (PyInt 0) s0 = Inr (True, s0\<lparr>plateau_delta := Some 0\<rparr>)
     \<and> set_plateau_delta (PyFloat 0) s0 = Inr (True, s0\<lparr>plateau_delta := Some 0\<rparr>)
     \<and> (\<forall>ok s'. detect_plateau s = Inr (ok, s') \<longrightarrow>
           (\<exists>f'. data s' = Some f' \<and> values_col f' = values_col f
              \<and> plateau_alert f' = Some (replicate (length (values_col f)) 0)))
     \<and> (slow_mavg_window s = Some sw \<and> sw \<le> int (length (values_col f)) \<longrightarrow>
           (\<exists>s'. detect_plateau s = Inr (True, s')))"
proof -
  from assms(1) obtain pl fw where c: "invariants s" "plateau_length s = Some pl" "10 \<le> pl"
      "fast_mavg_window s = Some fw"
    unfolding configured_iff invariants_iff by auto
  have a: "\<exists>f'. data s' = Some f' \<and> values_col f' = values_col f
              \<and> plateau_alert f' = Some (replicate (length (values_col f)) 0)"
    if "detect_plateau s = Inr (ok, s')" for ok s'
  proof -
    from detect_plateau_Inr [OF that]
    obtain s1 f1 dm al where r: "mavg_calc s = Inr s1" "data s1 = Some f1"
        "plateau_loop s1 0 dm = Inr al" "length al = length (values_col f1)"
        "s' = s1\<lparr>data := Some (f1\<lparr>plateau_alert := Some al\<rparr>)\<rparr>"
      by blast
    from mavg_calc_Inr [OF r(1)] assms(3) r(2)
    have e: "s1 = s\<lparr>data := Some f1\<rparr>" "values_col f1 = values_col f" by auto
    have p: "plateau_delta s1 = Some 0" "plateau_length s1 = Some pl"
      using assms(2) c(2) by (simp_all add: e(1))
    from plateau_loop_run_at [OF p, of 0 dm] r(3)
    have n: "length al = length dm" "\<forall>i < length dm. al ! i = 0"
      using c(3) by (auto simp: run_at_delta_zero)
    have "al = replicate (length (values_col f)) 0"
    proof (rule replicate_eqI)
      show "length al = length (values_col f)" using r(4) e(2) by simp
    next
      fix y assume "y \<in> set al"
      then obtain i where "i < length al" "al ! i = y" by (auto simp: in_set_conv_nth)
      then show "y = 0" using n by auto
    qed
    then show ?thesis using r(5) e(2) by simp
  qed
  have b: "\<exists>s'. detect_plateau s = Inr (True, s')"
    if "slow_mavg_window s = Some sw" "sw \<le> int (length (values_col f))"
    using detect_plateau_result [OF c(1) assms(3) that(1) c(4) that(2) assms(2) c(2)]
    by blast
  have d: "set_plateau_delta (PyInt 0) s0 = Inr (True, s0\<lparr>plateau_delta := Some 0\<rparr>)"
    "set_plateau_delta (PyFloat 0) s0 = Inr (True, s0\<lparr>plateau_delta := Some 0\<rparr>)"
    by (simp_all add: set_plateau_delta_def)
  show ?thesis using a b d by blast
qed

theorem detect_plateau_zero_delta_witness:
  "configured (default_detector\<lparr>plateau_delta := Some 0,
                  data := Some (DataFrame_values (replicate 21 500))\<rparr>)
   \<and> plateau_delta (default_detector\<lparr>plateau_delta := Some 0,
                  data := Some (DataFrame_values (replicate 21 500))\<rparr>) = Some 0
   \<and> data (default_detector\<lparr>plateau_delta := Some 0,
                  data := Some (DataFrame_values (replicate 21 500))\<rparr>)
       = Some (DataFrame_values (replicate 21 500))
   \<and> slow_mavg_window (default_detector\<lparr>plateau_delta := Some 0,
                  data := Some (DataFrame_values (replicate 21 500))\<rparr>) = Some 20
   \<and> (20::int) \<le> int (length (values_col (DataFrame_values (replicate 21 500))))
   \<and> set_plateau_delta (PyInt 0) default_detector
       = Inr (True, default_detector\<lparr>plateau_delta := Some 0\<rparr>)
   \<and> (\<exists>s' f'. detect_plateau (default_detector\<lparr>plateau_delta := Some 0,
                  data := Some (DataFrame_values (replicate 21 500))\<rparr>) = Inr (True, s')
         \<and> data s' = Some f' \<and> values_col f' = replicate 21 500
         \<and> plateau_alert f' = Some (replicate 21 0))"
proof -
  define s where "s = default_detector\<lparr>plateau_delta := Some 0,
                  data := Some (DataFrame_values (replicate 21 500))\<rparr>"
  define f where "f = DataFrame_values (replicate 21 500)"
  have h: "configured s" "plateau_delta s = Some 0" "data s = Some f"
    by (simp_all add: s_def f_def configured_def invariants_def default_detector_def)
  have w: "slow_mavg_window s = Some 20" "(20::int) \<le> int (length (values_col f))"
    by (simp_all add: s_def f_def default_detector_def values_col_DataFrame_values)
  have v: "values_col f = replicate 21 500"
    by (simp add: f_def values_col_DataFrame_values)
  note t = detect_plateau_zero_delta [OF h, of default_detector 20]
  from t w obtain s' where s': "detect_plateau s = Inr (True, s')" by blast
  with t obtain f' where "data s' = Some f'" "values_col f' = values_col f"
      "plateau_alert f' = Some (replicate (length (values_col f)) 0)" by blast
  then have "\<exists>s' f'. detect_plateau s = Inr (True, s')
         \<and> data s' = Some f' \<and> values_col f' = replicate 21 500
         \<and> plateau_alert f' = Some (replicate 21 0)"
    using s' v by auto
  then show ?thesis using h w t unfolding s_def f_def by simp
qed

section \<open>The slope rule and the composer\<close>

lemma detect_fast_slope_result:
  assumes "invariants s" "data s = Some f" "slow_mavg_window s = Some sw"
    "fast_mavg_window s = Some fw" "sw \<le> int (length (values_col f))"
    "mavg_delta s = Some md"
  shows "\<exists>sma fma.
       moving_average s sw = Inr sma \<and> moving_average s fw = Inr fma
     \<and> length sma = length (values_col f) \<and> length fma = length (values_col f)
     \<and> detect_fast_slope s = Inr (True, s\<lparr>data := Some (f\<lparr>slow_ma := Some sma,
           fast_ma := Some fma, delta_ma := Some (map2 (-) sma fma),
           delta_ma_alert := Some (map (\<lambda>d. if d < md * - 1 \<or> d > md then 1 else 0)
                                      (map2 (-) sma fma))\<rparr>)\<rparr>)"
proof -
  from mavg_calc_fits [OF assms(1-5)]
  obtain sma fma where m: "moving_average s sw = Inr sma" "moving_average s fw = Inr fma"
      "length sma = length (values_col f)" "length fma = length (values_col f)"
      "mavg_calc s = Inr (s\<lparr>data := Some (f\<lparr>slow_ma := Some sma, fast_ma := Some fma,
                              delta_ma := Some (map2 (-) sma fma)\<rparr>)\<rparr>)"
    by blast
  define s1 where "s1 = s\<lparr>data := Some (f\<lparr>slow_ma := Some sma, fast_ma := Some fma,
                              delta_ma := Some (map2 (-) sma fma)\<rparr>)\<rparr>"
  have "mavg_delta s1 = Some md" using assms(6) by (simp add: s1_def)
  then have a: "apply_rows (mavg_delta_calc s1) (map2 (-) sma fma)
          = Inr (map (\<lambda>d. if d < md * - 1 \<or> d > md then 1 else 0) (map2 (-) sma fma))"
    by (intro apply_rows_total) (simp add: mavg_delta_calc_def)
  have "detect_fast_slope s = Inr (True, s1\<lparr>data := Some (f\<lparr>slow_ma := Some sma,
           fast_ma := Some fma, delta_ma := Some (map2 (-) sma fma),
           delta_ma_alert := Some (map (\<lambda>d. if d < md * - 1 \<or> d > md then 1 else 0)
                                      (map2 (-) sma fma))\<rparr>)\<rparr>)"
    using m(5) a unfolding s1_def [symmetric]
    by (simp add: detect_fast_slope_def s1_def)
  then have "detect_fast_slope s = Inr (True, s\<lparr>data := Some (f\<lparr>slow_ma := Some sma,
           fast_ma := Some fma, delta_ma := Some (map2 (-) sma fma),
           delta_ma_alert := Some (map (\<lambda>d. if d < md * - 1 \<or> d > md then 1 else 0)
                                      (map2 (-) sma fma))\<rparr>)\<rparr>)"
    by (simp add: s1_def)
  then show ?thesis using m(1-4) by blast
qed

lemma combined_alert_nth:
  assumes "length mm = n" "length da = n" "length pa = n" "i < n"
  shows "logical_or (bool_eq_one (logical_or (eq_one mm) (eq_one da))) (eq_one pa) ! i
           = (mm ! i = 1 \<or> da ! i = 1 \<or> pa ! i = 1)"
  using assms by (simp add: logical_or_def bool_eq_one_def eq_one_def)

lemma combined_alert_length:
  assumes "length mm = n" "length da = n" "length pa = n"
  shows "length (logical_or (bool_eq_one (logical_or (eq_one mm) (eq_one da))) (eq_one pa)) = n"
  using assms by (simp add: logical_or_def bool_eq_one_def eq_one_def)

lemma detect_all_fits:
  assumes "configured s" "data s = Some f" "slow_mavg_window s = Some sw"
    "sw \<le> int (length (values_col f))"
  shows "\<exists>s1 s2 s3 f1 f2 f3 mm da pa al.
       detect_maxmin_rupture s = Inr (True, s1) \<and> data s1 = Some f1
         \<and> maxmin_alert f1 = Some mm
     \<and> detect_fast_slope s1 = Inr (True, s2) \<and> data s2 = Some f2
         \<and> delta_ma_alert f2 = Some da
     \<and> detect_plateau s2 = Inr (True, s3) \<and> data s3 = Some f3
         \<and> plateau_alert f3 = Some pa
     \<and> maxmin_alert f3 = Some mm \<and> delta_ma_alert f3 = Some da
     \<and> detect_all s = Inr (True, s3\<lparr>data := Some (f3\<lparr>alert := Some al\<rparr>)\<rparr>)
     \<and> length mm = length (values_col f) \<and> length da = length (values_col f)
     \<and> length pa = length (values_col f) \<and> length al = length (values_col f)
     \<and> (\<forall>i < length (values_col f). al ! i = (mm ! i = 1 \<or> da ! i = 1 \<or> pa ! i = 1))"
proof -
  from assms(1) obtain lo hi fw md pl pd where c: "invariants s" "lower_limit s = Some lo"
      "upper_limit s = Some (Num hi)" "fast_mavg_window s = Some fw" "mavg_delta s = Some md"
      "plateau_length s = Some pl" "plateau_delta s = Some pd"
    unfolding configured_iff invariants_iff by auto
  define n where "n = length (values_col f)"
  \<comment> \<open>the rupture rule\<close>
  define mm :: "int list" where "mm = map (\<lambda>x. if x < lo \<or> x > hi then 1 else 0) (values_col f)"
  define f1 where "f1 = f\<lparr>maxmin_alert := Some mm\<rparr>"
  define s1 where "s1 = s\<lparr>data := Some f1\<rparr>"
  have r1: "detect_maxmin_rupture s = Inr (True, s1)"
    unfolding s1_def f1_def mm_def by (rule detect_maxmin_rupture_result [OF assms(2) c(2,3)])
  have h1: "invariants s1" "data s1 = Some f1" "slow_mavg_window s1 = Some sw"
    "fast_mavg_window s1 = Some fw" "sw \<le> int (length (values_col f1))"
    "mavg_delta s1 = Some md" "plateau_delta s1 = Some pd" "plateau_length s1 = Some pl"
    using c assms(3,4) by (simp_all add: s1_def f1_def invariants_data_update)
  \<comment> \<open>the slope rule\<close>
  from detect_fast_slope_result [OF h1(1-6)]
  obtain sma fma where r2': "length sma = length (values_col f1)"
      "length fma = length (values_col f1)"
      "detect_fast_slope s1 = Inr (True, s1\<lparr>data := Some (f1\<lparr>slow_ma := Some sma,
           fast_ma := Some fma, delta_ma := Some (map2 (-) sma fma),
           delta_ma_alert := Some (map (\<lambda>d. if d < md * - 1 \<or> d > md then 1 else 0)
                                      (map2 (-) sma fma))\<rparr>)\<rparr>)"
    by blast
  define da :: "int list"
    where "da = map (\<lambda>d. if d < md * - 1 \<or> d > md then 1 else 0) (map2 (-) sma fma)"
  define f2 where "f2 = f1\<lparr>slow_ma := Some sma, fast_ma := Some fma,
      delta_ma := Some (map2 (-) sma fma), delta_ma_alert := Some da\<rparr>"
  define s2 where "s2 = s1\<lparr>data := Some f2\<rparr>"
  have r2: "detect_fast_slope s1 = Inr (True, s2)"
    using r2'(3) by (simp add: s2_def f2_def da_def)
  have h2: "invariants s2" "data s2 = Some f2" "slow_mavg_window s2 = Some sw"
    "fast_mavg_window s2 = Some fw" "sw \<le> int (length (values_col f2))"
    "plateau_delta s2 = Some pd" "plateau_length s2 = Some pl"
    using h1 by (simp_all add: s2_def f2_def invariants_data_update)
  \<comment> \<open>the plateau rule\<close>
  from detect_plateau_result [OF h2]
  obtain sma' fma' pa where r3': "detect_plateau s2 = Inr (True, s2\<lparr>data := Some (f2\<lparr>
           slow_ma := Some sma', fast_ma := Some fma', delta_ma := Some (map2 (-) sma' fma'),
           plateau_alert := Some pa\<rparr>)\<rparr>)"
      "length pa = length (values_col f2)"
    by blast
  define f3 where "f3 = f2\<lparr>slow_ma := Some sma', fast_ma := Some fma',
      delta_ma := Some (map2 (-) sma' fma'), plateau_alert := Some pa\<rparr>"
  define s3 where "s3 = s2\<lparr>data := Some f3\<rparr>"
  have r3: "detect_plateau s2 = Inr (True, s3)"
    using r3'(1) by (simp add: s3_def f3_def)
  have g: "data s3 = Some f3" "maxmin_alert f3 = Some mm" "delta_ma_alert f3 = Some da"
    "plateau_alert f3 = Some pa" "maxmin_alert f1 = Some mm" "delta_ma_alert f2 = Some da"
    by (simp_all add: s3_def f3_def f2_def f1_def)
  have l: "length mm = n" "length da = n" "length pa = n"
    using r2'(1,2) r3'(2) by (simp_all add: n_def mm_def da_def f2_def f1_def)
  \<comment> \<open>the composition\<close>
  define al where "al = logical_or (bool_eq_one (logical_or (eq_one mm) (eq_one da))) (eq_one pa)"
  have r: "detect_all s = Inr (True, s3\<lparr>data := Some (f3\<lparr>alert := Some al\<rparr>)\<rparr>)"
    using r1 r2 r3 g(1-4) by (simp add: detect_all_def and_then_def al_def Let_def)
  have la: "length al = n" unfolding al_def by (rule combined_alert_length [OF l])
  have nth: "\<forall>i < n. al ! i = (mm ! i = 1 \<or> da ! i = 1 \<or> pa ! i = 1)"
    unfolding al_def using combined_alert_nth [OF l] by blast
  show ?thesis
    using r1 h1(2) g r2 h2(2) r3 r l la nth unfolding n_def by blast
qed


lemma detect_fast_slope_Inr:
  "detect_fast_slope s = Inr r \<Longrightarrow> \<exists>s1. mavg_calc s = Inr s1"
  by (cases "mavg_calc s") (simp_all add: detect_fast_slope_def)

text \<open>\<open>detect_all\<close> returns only when the slow window fits the series.\<close>

lemma detect_all_returns_fits:
  assumes "configured s" "data s = Some f" "slow_mavg_window s = Some sw"
    "detect_all s = Inr r"
  shows "sw \<le> int (length (values_col f))"
proof -
  from assms(1) obtain lo hi where c: "lower_limit s = Some lo" "upper_limit s = Some (Num hi)"
    unfolding configured_iff invariants_iff by auto
  define f1 where "f1 = f\<lparr>maxmin_alert :=
      Some (map (\<lambda>x. if x < lo \<or> x > hi then 1 else 0) (values_col f))\<rparr>"
  define s1 where "s1 = s\<lparr>data := Some f1\<rparr>"
  have r1: "detect_maxmin_rupture s = Inr (True, s1)"
    unfolding s1_def f1_def by (rule detect_maxmin_rupture_result [OF assms(2) c])
  have "\<exists>x. detect_fast_slope s1 = Inr x"
  proof (cases "detect_fast_slope s1")
    case (Inl e)
    then have "detect_all s = Inl e" using r1 by (simp add: detect_all_def and_then_def)
    then show ?thesis using assms(4) by simp
  next
    case (Inr x)
    then show ?thesis by blast
  qed
  then obtain x s1' where "detect_fast_slope s1 = Inr x" "mavg_calc s1 = Inr s1'"
    using detect_fast_slope_Inr by blast
  moreover have "data s1 = Some f1" "slow_mavg_window s1 = Some sw"
    using assms(3) by (simp_all add: s1_def)
  ultimately have "sw \<le> int (length (values_col f1))"
    using mavg_calc_returns_fits by blast
  then show ?thesis by (simp add: f1_def)
qed

text \<open>
  Claim C6. On a constructed detector with a loaded series of length \<open>N\<close>,
  \<open>detect_all\<close> returns exactly when \<open>slow_mavg_window \<le> N\<close>. Whenever it returns, it
  returns \<open>True\<close> and it has run
  \<open>detect_maxmin_rupture\<close>, \<open>detect_fast_slope\<close> and \<open>detect_plateau\<close> in that order,
  each on the object the previous one left, and the columns \<open>maxmin_alert\<close>,
  \<open>delta_ma_alert\<close> and \<open>plateau_alert\<close> of the final frame are the ones these three
  calls produced. For every index \<open>i\<close> the combined column satisfies
  \<open>alert[i] = (maxmin_alert[i] = 1 or delta_ma_alert[i] = 1 or plateau_alert[i] = 1)\<close>.
\<close>

theorem detect_all_alert_is_or:
  assumes "configured s" "data s = Some f" "slow_mavg_window s = Some sw"
  shows "((\<exists>r. detect_all s = Inr r) \<longleftrightarrow> sw \<le> int (length (values_col f)))
     \<and> (\<forall>ok s'. detect_all s = Inr (ok, s') \<longrightarrow>
          ok \<and> (\<exists>s1 s2 s3 f1 f2 f3 mm da pa al.
             detect_maxmin_rupture s = Inr (True, s1) \<and> data s1 = Some f1
               \<and> maxmin_alert f1 = Some mm
           \<and> detect_fast_slope s1 = Inr (True, s2) \<and> data s2 = Some f2
               \<and> delta_ma_alert f2 = Some da
           \<and> detect_plateau s2 = Inr (True, s3) \<and> data s3 = Some f3
               \<and> plateau_alert f3 = Some pa
           \<and> maxmin_alert f3 = Some mm \<and> delta_ma_alert f3 = Some da
           \<and> s' = s3\<lparr>data := Some (f3\<lparr>alert := Some al\<rparr>)\<rparr>
           \<and> length mm = length (values_col f) \<and> length da = length (values_col f)
           \<and> length pa = length (values_col f) \<and> length al = length (values_col f)
           \<and> (\<forall>i < length (values_col f).
                 al ! i = (mm ! i = 1 \<or> da ! i = 1 \<or> pa ! i = 1))))"
proof -
  have fits: "sw \<le> int (length (values_col f))" if "detect_all s = Inr r" for r
    using that by (rule detect_all_returns_fits [OF assms])
  have ret: "\<exists>r. detect_all s = Inr r" if "sw \<le> int (length (values_col f))"
    using detect_all_fits [OF assms that] by blast
  have res: "ok \<and> (\<exists>s1 s2 s3 f1 f2 f3 mm da pa al.
             detect_maxmin_rupture s = Inr (True, s1) \<and> data s1 = Some f1
               \<and> maxmin_alert f1 = Some mm
           \<and> detect_fast_slope s1 = Inr (True, s2) \<and> data s2 = Some f2
               \<and> delta_ma_alert f2 = Some da
           \<and> detect_plateau s2 = Inr (True, s3) \<and> data s3 = Some f3
               \<and> plateau_alert f3 = Some pa
           \<and> maxmin_alert f3 = Some mm \<and> delta_ma_alert f3 = Some da
           \<and> s' = s3\<lparr>data := Some (f3\<lparr>alert := Some al\<rparr>)\<rparr>
           \<and> length mm = length (values_col f) \<and> length da = length (values_col f)
           \<and> length pa = length (values_col f) \<and> length al = length (values_col f)
           \<and> (\<forall>i < length (values_col f).
                 al ! i = (mm ! i = 1 \<or> da ! i = 1 \<or> pa ! i = 1)))"
    if "detect_all s = Inr (ok, s')" for ok s'
  proof -
    from fits [OF that] have w: "sw \<le> int (length (values_col f))" .
    from detect_all_fits [OF assms w]
    obtain s1 s2 s3 f1 f2 f3 mm da pa al where g:
        "detect_maxmin_rupture s = Inr (True, s1)" "data s1 = Some f1"
        "maxmin_alert f1 = Some mm"
        "detect_fast_slope s1 = Inr (True, s2)" "data s2 = Some f2"
        "delta_ma_alert f2 = Some da"
        "detect_plateau s2 = Inr (True, s3)" "data s3 = Some f3"
        "plateau_alert f3 = Some pa"
        "maxmin_alert f3 = Some mm" "delta_ma_alert f3 = Some da"
        "detect_all s = Inr (True, s3\<lparr>data := Some (f3\<lparr>alert := Some al\<rparr>)\<rparr>)"
        "length mm = length (values_col f)" "length da = length (values_col f)"
        "length pa = length (values_col f)" "length al = length (values_col f)"
        "\<forall>i < length (values_col f). al ! i = (mm ! i = 1 \<or> da ! i = 1 \<or> pa ! i = 1)"
      by blast
    from that g(12) have e: "ok" "s' = s3\<lparr>data := Some (f3\<lparr>alert := Some al\<rparr>)\<rparr>"
      by simp_all
    show ?thesis
      apply (rule conjI [OF e(1)])
      apply (rule exI [of _ s1], rule exI [of _ s2], rule exI [of _ s3])
      apply (rule exI [of _ f1], rule exI [of _ f2], rule exI [of _ f3])
      apply (rule exI [of _ mm], rule exI [of _ da], rule exI [of _ pa], rule exI [of _ al])
      apply (intro conjI g(1-11) e(2) g(13-17))
      done
  qed
  show ?thesis using fits ret res by blast
qed

theorem detect_all_alert_is_or_witness:
  "configured (default_detector\<lparr>data := Some (DataFrame_values (replicate 21 500))\<rparr>)
   \<and> data (default_detector\<lparr>data := Some (DataFrame_values (replicate 21 500))\<rparr>)
       = Some (DataFrame_values (replicate 21 500))
   \<and> slow_mavg_window (default_detector\<lparr>data := Some (DataFrame_values (replicate 21 500))\<rparr>)
       = Some 20
   \<and> (20::int) \<le> int (length (values_col (DataFrame_values (replicate 21 500))))
   \<and> (\<exists>s1 s2 s3 f1 f2 f3 mm da pa al.
       detect_maxmin_rupture (default_detector\<lparr>data := Some (DataFrame_values (replicate 21 500))\<rparr>)
           = Inr (True, s1)
         \<and> data s1 = Some f1 \<and> maxmin_alert f1 = Some mm
     \<and> detect_fast_slope s1 = Inr (True, s2) \<and> data s2 = Some f2
         \<and> delta_ma_alert f2 = Some da
     \<and> detect_plateau s2 = Inr (True, s3) \<and> data s3 = Some f3
         \<and> plateau_alert f3 = Some pa
     \<and> maxmin_alert f3 = Some mm \<and> delta_ma_alert f3 = Some da
     \<and> detect_all (default_detector\<lparr>data := Some (DataFrame_values (replicate 21 500))\<rparr>)
           = Inr (True, s3\<lparr>data := Some (f3\<lparr>alert := Some al\<rparr>)\<rparr>)
     \<and> length al = 21
     \<and> (\<forall>i < 21. al ! i = (mm ! i = 1 \<or> da ! i = 1 \<or> pa ! i = 1)))"
proof -
  define s where "s = default_detector\<lparr>data := Some (DataFrame_values (replicate 21 500))\<rparr>"
  define f where "f = DataFrame_values (replicate 21 500)"
  have h: "configured s" "data s = Some f" "slow_mavg_window s = Some 20"
    by (simp_all add: s_def f_def configured_def invariants_def default_detector_def)
  have w: "(20::int) \<le> int (length (values_col f))"
    by (simp add: f_def values_col_DataFrame_values)
  have l: "length (values_col f) = 21" by (simp add: f_def values_col_DataFrame_values)
  note t = detect_all_alert_is_or [OF h]
  from t w obtain r where "detect_all s = Inr r" by blast
  then obtain ok s' where r: "detect_all s = Inr (ok, s')" by (cases r) simp
  from t r obtain s1 s2 s3 f1 f2 f3 mm da pa al where g: "ok"
      "detect_maxmin_rupture s = Inr (True, s1)" "data s1 = Some f1"
      "maxmin_alert f1 = Some mm"
      "detect_fast_slope s1 = Inr (True, s2)" "data s2 = Some f2"
      "delta_ma_alert f2 = Some da"
      "detect_plateau s2 = Inr (True, s3)" "data s3 = Some f3"
      "plateau_alert f3 = Some pa"
      "maxmin_alert f3 = Some mm" "delta_ma_alert f3 = Some da"
      "s' = s3\<lparr>data := Some (f3\<lparr>alert := Some al\<rparr>)\<rparr>"
      "length al = length (values_col f)"
      "\<forall>i < length (values_col f). al ! i = (mm ! i = 1 \<or> da ! i = 1 \<or> pa ! i = 1)"
    by blast
  have a: "detect_all s = Inr (True, s3\<lparr>data := Some (f3\<lparr>alert := Some al\<rparr>)\<rparr>)"
    using r g(1,13) by simp
  have "detect_maxmin_rupture s = Inr (True, s1)
         \<and> data s1 = Some f1 \<and> maxmin_alert f1 = Some mm
     \<and> detect_fast_slope s1 = Inr (True, s2) \<and> data s2 = Some f2
         \<and> delta_ma_alert f2 = Some da
     \<and> detect_plateau s2 = Inr (True, s3) \<and> data s3 = Some f3
         \<and> plateau_alert f3 = Some pa
     \<and> maxmin_alert f3 = Some mm \<and> delta_ma_alert f3 = Some da
     \<and> detect_all s = Inr (True, s3\<lparr>data := Some (f3\<lparr>alert := Some al\<rparr>)\<rparr>)
     \<and> length al = 21
     \<and> (\<forall>i < 21. al ! i = (mm ! i = 1 \<or> da ! i = 1 \<or> pa ! i = 1))"
    using g(2-12) a g(14,15) unfolding l by (intro conjI)
  then have "\<exists>s1 s2 s3 f1 f2 f3 mm da pa al.
       detect_maxmin_rupture s = Inr (True, s1)
         \<and> data s1 = Some f1 \<and> maxmin_alert f1 = Some mm
     \<and> detect_fast_slope s1 = Inr (True, s2) \<and> data s2 = Some f2
         \<and> delta_ma_alert f2 = Some da
     \<and> detect_plateau s2 = Inr (True, s3) \<and> data s3 = Some f3
         \<and> plateau_alert f3 = Some pa
     \<and> maxmin_alert f3 = Some mm \<and> delta_ma_alert f3 = Some da
     \<and> detect_all s = Inr (True, s3\<lparr>data := Some (f3\<lparr>alert := Some al\<rparr>)\<rparr>)
     \<and> length al = 21
     \<and> (\<forall>i < 21. al ! i = (mm ! i = 1 \<or> da ! i = 1 \<or> pa ! i = 1))"
    by blast
  then show ?thesis using h w unfolding s_def f_def by blast
qed

section \<open>The auto-tuner\<close>






end
